theory Spec2Isabelle
  imports Complex_Main "HOL-Library.Word"
begin

unbundle bit_operations_syntax

section \<open>JavaScript values, errors and buffers\<close>

text \<open>
  The gateway is JavaScript. A thrown exception is a value of \<open>js_error\<close>, and a
  function that can throw returns \<open>js_error + 'a\<close> (\<open>Inl\<close> the exception). A
  \<open>Buffer\<close> is a list of bytes. String literals that the source writes in Chinese are
  given by their UTF-8 bytes, so that the file stays ASCII and distinct literals stay
  distinct. The private helpers of the source carry a leading underscore
  (\<open>_parseMAC\<close>, \<open>_addLog\<close>, ...), which an Isabelle name cannot; they
  are named here without it.
\<close>

datatype js_error = RangeError | TypeError

type_synonym byte = "8 word"
type_synonym buffer = "byte list"

fun bindE :: "js_error + 'a \<Rightarrow> ('a \<Rightarrow> js_error + 'b) \<Rightarrow> js_error + 'b" where
  "bindE (Inl e) f = Inl e"
| "bindE (Inr v) f = f v"

text \<open>\<open>Array.prototype.map\<close> with a callback that may throw: the first exception ends it.\<close>

fun mapE :: "('a \<Rightarrow> js_error + 'b) \<Rightarrow> 'a list \<Rightarrow> js_error + 'b list" where
  "mapE f [] = Inr []"
| "mapE f (x # xs) = bindE (f x) (\<lambda>y. bindE (mapE f xs) (\<lambda>ys. Inr (y # ys)))"

subsection \<open>Numbers as strings\<close>

definition digit_char :: "nat \<Rightarrow> char" where
  "digit_char d = ''0123456789abcdefghijklmnopqrstuvwxyz'' ! d"

function digits_of :: "nat \<Rightarrow> nat \<Rightarrow> string" where
  "digits_of r n =
     (if r < 2 \<or> n < r then [digit_char n]
      else digits_of r (n div r) @ [digit_char (n mod r)])"
  by pat_completeness auto
termination
  by (relation "measure (\<lambda>(r, n). n)") auto

declare digits_of.simps [simp del]

text \<open>
  \<open>StringToNumber\<close> on the strings of decimal digits (the empty string is 0); every
  other string is taken as not numeric (\<open>None\<close> is NaN). The full grammar also reads
  white space, signs, exponents, radix prefixes and \<open>Infinity\<close>; the only string the
  source passes is \<open>'hex'\<close>, which is none of these.
\<close>

definition is_digit :: "char \<Rightarrow> bool" where
  "is_digit c = (c \<in> set ''0123456789'')"

definition StringToNumber :: "string \<Rightarrow> nat option" where
  "StringToNumber s =
     (if list_all is_digit s
      then Some (foldl (\<lambda>a c. 10 * a + (of_char c - 48)) 0 s)
      else None)"

text \<open>\<open>ToIntegerOrInfinity\<close> of a string argument: NaN becomes 0.\<close>

definition ToIntegerOrInfinity :: "string \<Rightarrow> int" where
  "ToIntegerOrInfinity s = (case StringToNumber s of None \<Rightarrow> 0 | Some n \<Rightarrow> int n)"

text \<open>
  \<open>Number.prototype.toString(radix)\<close> on a non-negative integer, the radix given as
  a string: the radix is coerced first, and a radix outside 2..36 throws a RangeError.
\<close>

definition Number_toString :: "nat \<Rightarrow> string \<Rightarrow> js_error + string" where
  "Number_toString x radix =
     (let radixMV = ToIntegerOrInfinity radix
      in if radixMV < 2 \<or> 36 < radixMV then Inl RangeError
         else Inr (digits_of (nat radixMV) x))"

definition padStart :: "nat \<Rightarrow> char \<Rightarrow> string \<Rightarrow> string" where
  "padStart n c s = replicate (n - length s) c @ s"

fun join :: "string \<Rightarrow> string list \<Rightarrow> string" where
  "join sep [] = []"
| "join sep [x] = x"
| "join sep (x # y # ys) = x @ sep @ join sep (y # ys)"

subsection \<open>Buffers\<close>

text \<open>
  \<open>buf.slice(a, b)\<close> clamps to the buffer; the \<open>read*\<close> methods throw a RangeError
  when the read does not fit. \<open>buf.toString('hex')\<close> writes two lowercase digits per
  byte; \<open>Buffer.from(s, 'hex')\<close> reads pairs of hex digits and stops at the first
  pair that is not one; \<open>buf.toString('ascii')\<close> drops the high bit of each byte.
\<close>

definition slice :: "buffer \<Rightarrow> nat \<Rightarrow> nat \<Rightarrow> buffer" where
  "slice buf a b = take (b - a) (drop a buf)"

definition readUInt8 :: "buffer \<Rightarrow> nat \<Rightarrow> js_error + nat" where
  "readUInt8 buf off =
     (if off + 1 \<le> length buf then Inr (unat (buf ! off)) else Inl RangeError)"

definition readUInt16BE :: "buffer \<Rightarrow> nat \<Rightarrow> js_error + nat" where
  "readUInt16BE buf off =
     (if off + 2 \<le> length buf
      then Inr (unat (buf ! off) * 256 + unat (buf ! (off + 1)))
      else Inl RangeError)"

definition readUInt32BE :: "buffer \<Rightarrow> nat \<Rightarrow> js_error + nat" where
  "readUInt32BE buf off =
     (if off + 4 \<le> length buf
      then Inr (unat (buf ! off) * 16777216 + unat (buf ! (off + 1)) * 65536
                + unat (buf ! (off + 2)) * 256 + unat (buf ! (off + 3)))
      else Inl RangeError)"

definition readUInt32LE :: "buffer \<Rightarrow> nat \<Rightarrow> js_error + nat" where
  "readUInt32LE buf off =
     (if off + 4 \<le> length buf
      then Inr (unat (buf ! off) + unat (buf ! (off + 1)) * 256
                + unat (buf ! (off + 2)) * 65536 + unat (buf ! (off + 3)) * 16777216)
      else Inl RangeError)"

definition readInt32BE :: "buffer \<Rightarrow> nat \<Rightarrow> js_error + int" where
  "readInt32BE buf off =
     bindE (readUInt32BE buf off)
       (\<lambda>u. Inr (if u < 2147483648 then int u else int u - 4294967296))"

definition toHex :: "buffer \<Rightarrow> string" where
  "toHex buf = concat (map (\<lambda>b. [digit_char (unat b div 16), digit_char (unat b mod 16)]) buf)"

definition hex_val :: "char \<Rightarrow> nat option" where
  "hex_val c =
     (let n = (of_char c :: nat)
      in if 48 \<le> n \<and> n \<le> 57 then Some (n - 48)
         else if 97 \<le> n \<and> n \<le> 102 then Some (n - 87)
         else if 65 \<le> n \<and> n \<le> 70 then Some (n - 55)
         else None)"

fun fromHex :: "string \<Rightarrow> buffer" where
  "fromHex (c # d # cs) =
     (case hex_val c of
        None \<Rightarrow> []
      | Some h \<Rightarrow> (case hex_val d of
          None \<Rightarrow> []
        | Some l \<Rightarrow> word_of_nat (16 * h + l) # fromHex cs))"
| "fromHex cs = []"

definition toString_ascii :: "buffer \<Rightarrow> string" where
  "toString_ascii buf = map (\<lambda>b. char_of (unat (b AND 0x7F))) buf"

section \<open>ProtocolUtils\<close>

definition BOOT_VERSION :: nat where "BOOT_VERSION = 0xAA44"
definition HEALTH_DATA :: nat where "HEALTH_DATA = 0xAA55"
definition ALARM_DATA :: nat where "ALARM_DATA = 0xAA77"

definition FAIL :: byte where "FAIL = 0x00"
definition SUCCESS :: byte where "SUCCESS = 0x01"

definition NO_UPGRADE :: byte where "NO_UPGRADE = 0x00"
definition NEED_UPGRADE :: byte where "NEED_UPGRADE = 0x01"

definition PACKET_TAIL :: byte where "PACKET_TAIL = 0x0D"

text \<open>\<open>parseHeader\<close>: null (\<open>None\<close>) under two bytes, else the big-endian 16-bit value.\<close>

definition parseHeader :: "buffer \<Rightarrow> js_error + nat option" where
  "parseHeader buffer =
     (if length buffer < 2 then Inr None
      else bindE (readUInt16BE buffer 0) (\<lambda>v. Inr (Some v)))"

text \<open>
  \<open>_parseMAC\<close>: each byte of the slice is a number, and the source formats it with
  \<open>byte.toString('hex')\<close>, then pads to two characters and joins with colons.
\<close>

definition parseMAC :: "buffer \<Rightarrow> js_error + string" where
  "parseMAC macBuffer =
     bindE (mapE (\<lambda>byte. bindE (Number_toString (unat byte) ''hex'')
                     (\<lambda>s. Inr (padStart 2 CHR ''0'' s))) macBuffer)
       (\<lambda>parts. Inr (join '':'' parts))"

record boot_frame =
  bf_frameType :: nat
  bf_mac :: string
  bf_softwareVersion :: string
  bf_rawData :: string

text \<open>
  \<open>parseBootVersionFrame\<close>: null unless the buffer has 12 bytes and ends with the
  tail byte. The fields of the object literal are evaluated in order, \<open>mac\<close> first
  among those that call a function.
\<close>

definition parseBootVersionFrame :: "buffer \<Rightarrow> js_error + boot_frame option" where
  "parseBootVersionFrame buffer =
     (if length buffer \<noteq> 12 \<or> buffer ! 11 \<noteq> PACKET_TAIL then Inr None
      else bindE (parseMAC (slice buffer 2 8))
        (\<lambda>mac. Inr (Some \<lparr>bf_frameType = BOOT_VERSION,
                            bf_mac = mac,
                            bf_softwareVersion = toString_ascii (slice buffer 8 11),
                            bf_rawData = toHex buffer\<rparr>)))"

text \<open>
  \<open>_parseTimestamp\<close> reads the four bytes little-endian and formats the date
  \<open>new Date(timestamp * 1000)\<close> with \<open>toLocaleString('zh-CN')\<close>. The formatting
  is the runtime's (it depends on its time zone), so it is the parameter \<open>fmt\<close>, from
  the milliseconds to the string.
\<close>

definition parseTimestamp :: "(nat \<Rightarrow> string) \<Rightarrow> buffer \<Rightarrow> js_error + string" where
  "parseTimestamp fmt timestampBuffer =
     bindE (readUInt32LE timestampBuffer 0) (\<lambda>timestamp. Inr (fmt (timestamp * 1000)))"

text \<open>
  \<open>_parseTemperature\<close>: the signed big-endian 32-bit value over 10. The quotient is
  the exact one here, where JavaScript has the nearest double.
\<close>

definition parseTemperature :: "buffer \<Rightarrow> js_error + real" where
  "parseTemperature tempBuffer =
     bindE (readInt32BE tempBuffer 0) (\<lambda>temp. Inr (real_of_int temp / 10))"

definition WORN :: string where
  "WORN = [CHR 0xE5, CHR 0xB7, CHR 0xB2, CHR 0xE4, CHR 0xBD, CHR 0xA9, CHR 0xE6, CHR 0x88,
           CHR 0xB4]"

definition NOT_WORN :: string where
  "NOT_WORN = [CHR 0xE6, CHR 0x9C, CHR 0xAA, CHR 0xE4, CHR 0xBD, CHR 0xA9, CHR 0xE6, CHR 0x88,
               CHR 0xB4]"

definition parseWearStatus :: "nat \<Rightarrow> string" where
  "parseWearStatus statusByte =
     (if (word_of_nat statusByte :: 32 word) AND 0x01 = 0x01 then WORN else NOT_WORN)"

text \<open>The three alarm names: low battery, SOS and unknown.\<close>

definition LOW_BATTERY_ALARM :: string where
  "LOW_BATTERY_ALARM = [CHR 0xE4, CHR 0xBD, CHR 0x8E, CHR 0xE7, CHR 0x94, CHR 0xB5, CHR 0xE9,
                        CHR 0x87, CHR 0x8F, CHR 0xE6, CHR 0x8A, CHR 0xA5, CHR 0xE8, CHR 0xAD,
                        CHR 0xA6]"

definition SOS_ALARM :: string where
  "SOS_ALARM = [CHR 0x53, CHR 0x4F, CHR 0x53, CHR 0xE6, CHR 0x8A, CHR 0xA5, CHR 0xE8, CHR 0xAD,
                CHR 0xA6]"

definition UNKNOWN_ALARM :: string where
  "UNKNOWN_ALARM = [CHR 0xE6, CHR 0x9C, CHR 0xAA, CHR 0xE7, CHR 0x9F, CHR 0xA5, CHR 0xE6,
                    CHR 0x8A, CHR 0xA5, CHR 0xE8, CHR 0xAD, CHR 0xA6]"

text \<open>
  \<open>_parseAlarmType\<close>: the array starts empty, bit 0 pushes the low-battery name,
  then bit 1 pushes the SOS name; an array left empty is replaced by the unknown name.
\<close>

definition parseAlarmType :: "nat \<Rightarrow> string list" where
  "parseAlarmType alarmByte =
     (let alarms = [];
          alarms = (if (word_of_nat alarmByte :: 32 word) AND 0x01 \<noteq> 0
                    then alarms @ [LOW_BATTERY_ALARM] else alarms);
          alarms = (if (word_of_nat alarmByte :: 32 word) AND 0x02 \<noteq> 0
                    then alarms @ [SOS_ALARM] else alarms)
      in if length alarms > 0 then alarms else [UNKNOWN_ALARM])"

record health_block =
  hb_timestamp :: string
  hb_frameCount :: nat
  hb_heartRate :: nat
  hb_bloodOxygen :: nat
  hb_wearStatus :: string
  hb_wristTemp :: real
  hb_bodyTemp :: real
  hb_wifiMac :: string

record health_frame =
  hf_frameType :: nat
  hf_mac :: string
  hf_battery :: nat
  hf_packetSeq :: nat
  hf_packetLength :: nat
  hf_rawData :: string
  hf_healthData :: "health_block option"

text \<open>
  \<open>parseHealthDataFrame\<close>: null under 13 bytes or without the tail byte; the base
  fields; then the block between offset 12 and the tail, parsed when it has 24 bytes
  or more.
\<close>

definition parseHealthDataFrame ::
  "(nat \<Rightarrow> string) \<Rightarrow> buffer \<Rightarrow> js_error + health_frame option" where
  "parseHealthDataFrame fmt buffer =
     (if length buffer < 13 \<or> buffer ! (length buffer - 1) \<noteq> PACKET_TAIL then Inr None
      else
        bindE (parseMAC (slice buffer 2 8)) (\<lambda>mac.
        bindE (readUInt8 buffer 8) (\<lambda>battery.
        bindE (readUInt8 buffer 9) (\<lambda>packetSeq.
        bindE (readUInt16BE buffer 10) (\<lambda>packetLength.
          let baseInfo = \<lparr>hf_frameType = HEALTH_DATA, hf_mac = mac, hf_battery = battery,
                           hf_packetSeq = packetSeq, hf_packetLength = packetLength,
                           hf_rawData = toHex buffer, hf_healthData = None\<rparr>;
              healthBlock = slice buffer 12 (length buffer - 1)
          in if length healthBlock < 24 then Inr (Some baseInfo)
             else
               bindE (parseTimestamp fmt (slice healthBlock 2 6)) (\<lambda>timestamp.
               bindE (readUInt32BE healthBlock 6) (\<lambda>frameCount.
               bindE (readUInt8 healthBlock 10) (\<lambda>heartRate.
               bindE (readUInt8 healthBlock 11) (\<lambda>bloodOxygen.
               bindE (readUInt8 healthBlock 12) (\<lambda>wearByte.
               bindE (parseTemperature (slice healthBlock 13 17)) (\<lambda>wristTemp.
               bindE (parseTemperature (slice healthBlock 17 21)) (\<lambda>bodyTemp.
               bindE (parseMAC (slice healthBlock 21 27)) (\<lambda>wifiMac.
                 Inr (Some (baseInfo\<lparr>hf_healthData := Some
                   \<lparr>hb_timestamp = timestamp, hb_frameCount = frameCount,
                    hb_heartRate = heartRate, hb_bloodOxygen = bloodOxygen,
                    hb_wearStatus = parseWearStatus wearByte,
                    hb_wristTemp = wristTemp, hb_bodyTemp = bodyTemp,
                    hb_wifiMac = wifiMac\<rparr>\<rparr>)))))))))))))))"

record alarm_health =
  ah_heartRate :: nat
  ah_bloodOxygen :: nat
  ah_wearStatus :: string

record alarm_frame =
  af_frameType :: nat
  af_mac :: string
  af_packetLength :: nat
  af_alarmType :: "string list"
  af_rawData :: string
  af_healthData :: "alarm_health option"

definition parseAlarmDataFrame :: "buffer \<Rightarrow> js_error + alarm_frame option" where
  "parseAlarmDataFrame buffer =
     (if length buffer < 13 \<or> buffer ! (length buffer - 1) \<noteq> PACKET_TAIL then Inr None
      else
        bindE (parseMAC (slice buffer 2 8)) (\<lambda>mac.
        bindE (readUInt16BE buffer 8) (\<lambda>packetLength.
        bindE (readUInt8 buffer 10) (\<lambda>alarmByte.
          let baseInfo = \<lparr>af_frameType = ALARM_DATA, af_mac = mac,
                           af_packetLength = packetLength,
                           af_alarmType = parseAlarmType alarmByte,
                           af_rawData = toHex buffer, af_healthData = None\<rparr>;
              healthBlock = slice buffer 11 (length buffer - 1)
          in if length healthBlock \<ge> 24
             then
               bindE (readUInt8 healthBlock 10) (\<lambda>heartRate.
               bindE (readUInt8 healthBlock 11) (\<lambda>bloodOxygen.
               bindE (readUInt8 healthBlock 12) (\<lambda>wearByte.
                 Inr (Some (baseInfo\<lparr>af_healthData := Some
                   \<lparr>ah_heartRate = heartRate, ah_bloodOxygen = bloodOxygen,
                    ah_wearStatus = parseWearStatus wearByte\<rparr>\<rparr>)))))
             else Inr (Some baseInfo)))))"

text \<open>
  \<open>generateResponseFrame\<close>: the mac is decoded from hex, and the switch on the frame
  type concatenates the header, the mac bytes, the status bytes and the tail; any other
  frame type gives null.
\<close>

definition generateResponseFrame :: "string \<Rightarrow> nat \<Rightarrow> buffer option" where
  "generateResponseFrame mac frameType =
     (let macBuffer = fromHex mac
      in if frameType = BOOT_VERSION
         then Some (concat [[0xAA, 0x44], macBuffer, [NO_UPGRADE], [0x00], [PACKET_TAIL]])
         else if frameType = HEALTH_DATA
         then Some (concat [[0xAA, 0x55], macBuffer, [SUCCESS], [PACKET_TAIL]])
         else if frameType = ALARM_DATA
         then Some (concat [[0xAA, 0x77], macBuffer, [SUCCESS], [PACKET_TAIL]])
         else None)"

section \<open>DeviceManager\<close>

text \<open>
  A device record and an update are JavaScript objects: maps from property names to
  values. Reading a property that is absent gives \<open>undefined\<close>, and the spread
  \<open>{...device, ...data}\<close> is the map \<open>device ++ data\<close>: a key of \<open>data\<close> wins, also
  when its value is \<open>undefined\<close>. The numbers are reals (there is no NaN here).
\<close>

datatype jsval =
  Undefined | Null | Bool bool | Num real | Str string | StrArr "string list" | EmptyObj

type_synonym obj = "string \<rightharpoonup> jsval"

definition getProp :: "obj \<Rightarrow> string \<Rightarrow> jsval" where
  "getProp ob k = (case ob k of None \<Rightarrow> Undefined | Some v \<Rightarrow> v)"

fun truthy :: "jsval \<Rightarrow> bool" where
  "truthy Undefined = False"
| "truthy Null = False"
| "truthy (Bool b) = b"
| "truthy (Num x) = (x \<noteq> 0)"
| "truthy (Str s) = (s \<noteq> [])"
| "truthy (StrArr xs) = True"
| "truthy EmptyObj = True"

text \<open>\<open>v.join(',')\<close>: only an array has the method; calling it on another value throws.\<close>

fun join_method :: "jsval \<Rightarrow> js_error + string" where
  "join_method (StrArr xs) = Inr (join '','' xs)"
| "join_method v = Inl TypeError"

record log_entry =
  log_time :: string
  log_type :: string
  log_content :: string

record DeviceManager =
  devices :: "string \<rightharpoonup> obj"
  logs :: "log_entry list"

definition new_DeviceManager :: DeviceManager where
  "new_DeviceManager = \<lparr>devices = Map.empty, logs = []\<rparr>"

text \<open>
  \<open>_addLog\<close>: push the entry (its time is the clock's, the parameter \<open>now\<close>), then
  shift the first entry out when the array is longer than 10000.
\<close>

definition addLog :: "string \<Rightarrow> string \<Rightarrow> string \<Rightarrow> DeviceManager \<Rightarrow> DeviceManager" where
  "addLog content type now dm =
     (let pushed = logs dm @ [\<lparr>log_time = now, log_type = type, log_content = content\<rparr>]
      in dm\<lparr>logs := (if length pushed > 10000 then tl pushed else pushed)\<rparr>)"

definition DEVICE_ONLINE :: string where
  "DEVICE_ONLINE = [CHR 0xE8, CHR 0xAE, CHR 0xBE, CHR 0xE5, CHR 0xA4, CHR 0x87, CHR 0xE4,
                    CHR 0xB8, CHR 0x8A, CHR 0xE7, CHR 0xBA, CHR 0xBF, CHR 0xEF, CHR 0xBC,
                    CHR 0x9A]"

definition DEVICE_ALARM :: string where
  "DEVICE_ALARM = [CHR 0xE8, CHR 0xAE, CHR 0xBE, CHR 0xE5, CHR 0xA4, CHR 0x87, CHR 0xE6,
                   CHR 0x8A, CHR 0xA5, CHR 0xE8, CHR 0xAD, CHR 0xA6, CHR 0x20, CHR 0x5B]"

definition DEVICE_ALARM_SEP :: string where
  "DEVICE_ALARM_SEP = [CHR 0x5D, CHR 0xEF, CHR 0xBC, CHR 0x9A]"

definition DEVICES_CLEARED :: string where
  "DEVICES_CLEARED = [CHR 0xE8, CHR 0xAE, CHR 0xBE, CHR 0xE5, CHR 0xA4, CHR 0x87, CHR 0xE5,
                      CHR 0x88, CHR 0x97, CHR 0xE8, CHR 0xA1, CHR 0xA8, CHR 0xE5, CHR 0xB7,
                      CHR 0xB2, CHR 0xE6, CHR 0xB8, CHR 0x85, CHR 0xE7, CHR 0xA9, CHR 0xBA]"

definition LOGS_EXPORTED :: string where
  "LOGS_EXPORTED = [CHR 0xE6, CHR 0x97, CHR 0xA5, CHR 0xE5, CHR 0xBF, CHR 0x97, CHR 0xE5,
                    CHR 0xB7, CHR 0xB2, CHR 0xE5, CHR 0xAF, CHR 0xBC, CHR 0xE5, CHR 0x87,
                    CHR 0xBA, CHR 0xEF, CHR 0xBC, CHR 0x9A]"

definition addDevice :: "string \<Rightarrow> obj \<Rightarrow> string \<Rightarrow> DeviceManager \<Rightarrow> DeviceManager" where
  "addDevice mac deviceInfo now dm =
     addLog (DEVICE_ONLINE @ mac) ''info'' now
       (dm\<lparr>devices := (devices dm)
              (mac \<mapsto> deviceInfo ++ [''healthData'' \<mapsto> EmptyObj, ''alarm'' \<mapsto> StrArr []])\<rparr>)"

text \<open>
  \<open>updateDeviceData\<close> returns at once for an id the map does not have. Otherwise it
  stores the merged record, and when \<open>data.alarm\<close> is truthy it logs the joined alarm
  names. An exception of the join leaves the stored record merged.
\<close>

definition updateDeviceData ::
  "string \<Rightarrow> obj \<Rightarrow> string \<Rightarrow> DeviceManager \<Rightarrow> (js_error + unit) \<times> DeviceManager" where
  "updateDeviceData mac data now dm =
     (case devices dm mac of
        None \<Rightarrow> (Inr (), dm)
      | Some device \<Rightarrow>
          let dm1 = dm\<lparr>devices := (devices dm)(mac \<mapsto> device ++ data)\<rparr>
          in if truthy (getProp data ''alarm'')
             then (case join_method (getProp data ''alarm'') of
                     Inl e \<Rightarrow> (Inl e, dm1)
                   | Inr names \<Rightarrow>
                       (Inr (), addLog (DEVICE_ALARM @ mac @ DEVICE_ALARM_SEP @ names)
                                  ''alarm'' now dm1))
             else (Inr (), dm1))"

definition getDevice :: "string \<Rightarrow> DeviceManager \<Rightarrow> obj option" where
  "getDevice mac dm = devices dm mac"

definition clear :: "string \<Rightarrow> DeviceManager \<Rightarrow> DeviceManager" where
  "clear now dm = addLog DEVICES_CLEARED ''info'' now (dm\<lparr>devices := Map.empty\<rparr>)"

text \<open>
  \<open>exportLogs\<close> writes the log to a file and then logs the export. The file system is
  outside the program: \<open>written\<close> says whether the awaited write came back.
\<close>

definition exportLogs :: "string \<Rightarrow> string \<Rightarrow> bool \<Rightarrow> DeviceManager \<Rightarrow> DeviceManager" where
  "exportLogs filePath now written dm =
     (if written then addLog (LOGS_EXPORTED @ filePath) ''info'' now dm else dm)"

section \<open>The broker's event handlers\<close>

text \<open>
  The handlers of \<open>startMqttBroker\<close>, as far as they decode and touch the
  DeviceManager. Each reading of the clock is a parameter: \<open>now\<close> is the handler's
  own \<open>new Date().toLocaleString()\<close>, \<open>logTime\<close> the one \<open>_addLog\<close> takes. The
  notifications to the renderer and the acknowledgement come after these steps and do
  not touch the DeviceManager; they are not part of the model.
\<close>

definition onConnect ::
  "string \<Rightarrow> real \<Rightarrow> string \<Rightarrow> string \<Rightarrow> DeviceManager \<Rightarrow> DeviceManager" where
  "onConnect clientId pid now logTime dm =
     addDevice clientId
       [''clientId'' \<mapsto> Str clientId, ''status'' \<mapsto> Str ''online'',
        ''connectTime'' \<mapsto> Str now, ''processId'' \<mapsto> Num pid]
       logTime dm"

definition onDisconnect ::
  "string \<Rightarrow> string \<Rightarrow> string \<Rightarrow> DeviceManager \<Rightarrow> (js_error + unit) \<times> DeviceManager" where
  "onDisconnect clientId now logTime dm =
     updateDeviceData clientId
       [''status'' \<mapsto> Str ''offline'', ''disconnectTime'' \<mapsto> Str now]
       logTime dm"

text \<open>
  The value of \<open>parsedResult\<close> after the switch of the publish handler: null, one of
  the three parsed frames, or the object \<open>{error, rawData}\<close> of the default branch.
\<close>

datatype parsedResult =
    ParsedNull
  | ParsedBoot boot_frame
  | ParsedHealth health_frame
  | ParsedAlarm alarm_frame
  | ParsedError string string

definition UNKNOWN_FRAME_TYPE :: string where
  "UNKNOWN_FRAME_TYPE = [CHR 0xE6, CHR 0x9C, CHR 0xAA, CHR 0xE7, CHR 0x9F, CHR 0xA5, CHR 0xE5,
                         CHR 0xB8, CHR 0xA7, CHR 0xE7, CHR 0xB1, CHR 0xBB, CHR 0xE5, CHR 0x9E,
                         CHR 0x8B]"

text \<open>\<open>parsedResult?.healthData?.field\<close> and \<open>parsedResult?.alarmType\<close>.\<close>

definition healthField :: "health_frame option \<Rightarrow> (health_block \<Rightarrow> jsval) \<Rightarrow> jsval" where
  "healthField parsedResult sel =
     (case parsedResult of
        None \<Rightarrow> Undefined
      | Some frame \<Rightarrow> (case hf_healthData frame of None \<Rightarrow> Undefined | Some h \<Rightarrow> sel h))"

definition alarmField :: "alarm_frame option \<Rightarrow> jsval" where
  "alarmField parsedResult =
     (case parsedResult of None \<Rightarrow> Undefined | Some frame \<Rightarrow> StrArr (af_alarmType frame))"

definition healthUpdate :: "health_frame option \<Rightarrow> obj" where
  "healthUpdate parsedResult =
     [''heartRate'' \<mapsto> healthField parsedResult (\<lambda>h. Num (real (hb_heartRate h))),
      ''bloodOxygen'' \<mapsto> healthField parsedResult (\<lambda>h. Num (real (hb_bloodOxygen h))),
      ''wristTemp'' \<mapsto> healthField parsedResult (\<lambda>h. Num (hb_wristTemp h)),
      ''bodyTemp'' \<mapsto> healthField parsedResult (\<lambda>h. Num (hb_bodyTemp h)),
      ''wearStatus'' \<mapsto> healthField parsedResult (\<lambda>h. Str (hb_wearStatus h))]"

definition alarmUpdate :: "alarm_frame option \<Rightarrow> string \<Rightarrow> obj" where
  "alarmUpdate parsedResult now =
     [''alarm'' \<mapsto> alarmField parsedResult, ''alarmTime'' \<mapsto> Str now]"

text \<open>
  The publish handler for a client and a payload buffer: the payload goes to hex and
  back to a buffer, the header picks the case, and the health and alarm cases call
  \<open>updateDeviceData\<close> right after the parse, whatever the parse returned. An exception
  ends the handler where it is thrown.
\<close>

definition onPublish ::
  "(nat \<Rightarrow> string) \<Rightarrow> string \<Rightarrow> buffer \<Rightarrow> string \<Rightarrow> string \<Rightarrow> DeviceManager
     \<Rightarrow> (js_error + parsedResult) \<times> DeviceManager" where
  "onPublish fmt clientId payload now logTime dm =
     (let hexData = toHex payload;
          buffer = fromHex hexData
      in case parseHeader buffer of
           Inl e \<Rightarrow> (Inl e, dm)
         | Inr frameType \<Rightarrow>
             if frameType = Some BOOT_VERSION
             then (case parseBootVersionFrame buffer of
                     Inl e \<Rightarrow> (Inl e, dm)
                   | Inr None \<Rightarrow> (Inr ParsedNull, dm)
                   | Inr (Some frame) \<Rightarrow> (Inr (ParsedBoot frame), dm))
             else if frameType = Some HEALTH_DATA
             then (case parseHealthDataFrame fmt buffer of
                     Inl e \<Rightarrow> (Inl e, dm)
                   | Inr parsed \<Rightarrow>
                       (case updateDeviceData clientId (healthUpdate parsed) logTime dm of
                          (Inl e, dm') \<Rightarrow> (Inl e, dm')
                        | (Inr u, dm') \<Rightarrow>
                            (Inr (case parsed of None \<Rightarrow> ParsedNull
                                  | Some frame \<Rightarrow> ParsedHealth frame), dm')))
             else if frameType = Some ALARM_DATA
             then (case parseAlarmDataFrame buffer of
                     Inl e \<Rightarrow> (Inl e, dm)
                   | Inr parsed \<Rightarrow>
                       (case updateDeviceData clientId (alarmUpdate parsed now) logTime dm of
                          (Inl e, dm') \<Rightarrow> (Inl e, dm')
                        | (Inr u, dm') \<Rightarrow>
                            (Inr (case parsed of None \<Rightarrow> ParsedNull
                                  | Some frame \<Rightarrow> ParsedAlarm frame), dm')))
             else (Inr (ParsedError UNKNOWN_FRAME_TYPE hexData), dm))"

subsection \<open>Sequences of operations\<close>

text \<open>
  What can happen to a DeviceManager: a call of one of its methods, or one of the
  broker's events.
\<close>

datatype operation =
    AddDevice string obj string
  | UpdateDeviceData string obj string
  | Clear string
  | ExportLogs string string bool
  | Connect string real string string
  | Publish "nat \<Rightarrow> string" string buffer string string
  | Disconnect string string string

fun apply_operation :: "operation \<Rightarrow> DeviceManager \<Rightarrow> DeviceManager" where
  "apply_operation (AddDevice mac deviceInfo now) dm = addDevice mac deviceInfo now dm"
| "apply_operation (UpdateDeviceData mac data now) dm = snd (updateDeviceData mac data now dm)"
| "apply_operation (Clear now) dm = clear now dm"
| "apply_operation (ExportLogs filePath now written) dm = exportLogs filePath now written dm"
| "apply_operation (Connect clientId pid now logTime) dm = onConnect clientId pid now logTime dm"
| "apply_operation (Publish fmt clientId payload now logTime) dm =
     snd (onPublish fmt clientId payload now logTime dm)"
| "apply_operation (Disconnect clientId now logTime) dm =
     snd (onDisconnect clientId now logTime dm)"

definition run :: "operation list \<Rightarrow> DeviceManager \<Rightarrow> DeviceManager" where
  "run ops dm = foldl (\<lambda>d operation. apply_operation operation d) dm ops"

text \<open>Log entries appended one after the other: each is (content, type, time).\<close>

definition addLogs :: "(string \<times> string \<times> string) list \<Rightarrow> DeviceManager \<Rightarrow> DeviceManager" where
  "addLogs es dm = foldl (\<lambda>d (content, type, now). addLog content type now d) dm es"

definition entry_of :: "string \<times> string \<times> string \<Rightarrow> log_entry" where
  "entry_of e =
     (case e of (content, type, now) \<Rightarrow>
        \<lparr>log_time = now, log_type = type, log_content = content\<rparr>)"

section \<open>Terms of the claims\<close>

text \<open>
  A buffer is structurally valid when it has one of the three discriminants and the
  length and the tail byte that its frame type asks for. Every other buffer is a
  structural failure: too short, without the tail byte, or of an unknown discriminant.
\<close>

definition structurally_valid :: "buffer \<Rightarrow> bool" where
  "structurally_valid buf =
     ((parseHeader buf = Inr (Some BOOT_VERSION) \<and> length buf = 12 \<and> buf ! 11 = PACKET_TAIL) \<or>
      (parseHeader buf = Inr (Some HEALTH_DATA) \<and> 13 \<le> length buf \<and> last buf = PACKET_TAIL) \<or>
      (parseHeader buf = Inr (Some ALARM_DATA) \<and> 13 \<le> length buf \<and> last buf = PACKET_TAIL))"

definition known_discriminant :: "buffer \<Rightarrow> bool" where
  "known_discriminant buf =
     (parseHeader buf = Inr (Some BOOT_VERSION) \<or> parseHeader buf = Inr (Some HEALTH_DATA) \<or>
      parseHeader buf = Inr (Some ALARM_DATA))"

text \<open>
  A string of hex digits, and the byte its \<open>i\<close>-th pair of digits denotes.
\<close>

definition is_hex_string :: "string \<Rightarrow> bool" where
  "is_hex_string s = list_all (\<lambda>c. hex_val c \<noteq> None) s"

definition hex_byte :: "string \<Rightarrow> nat \<Rightarrow> byte" where
  "hex_byte s i = word_of_nat (16 * the (hex_val (s ! (2 * i))) + the (hex_val (s ! (2 * i + 1))))"

text \<open>
  The five keys the health case of the publish handler writes, and whether a parsed
  health frame carries the embedded block.
\<close>

definition vitals_keys :: "string set" where
  "vitals_keys = {''heartRate'', ''bloodOxygen'', ''wristTemp'', ''bodyTemp'', ''wearStatus''}"

definition has_health_block :: "health_frame option \<Rightarrow> bool" where
  "has_health_block parsed =
     (case parsed of None \<Rightarrow> False | Some frame \<Rightarrow> hf_healthData frame \<noteq> None)"

text \<open>The record a connect event stores for a device.\<close>

definition connected_record :: "string \<Rightarrow> real \<Rightarrow> string \<Rightarrow> obj" where
  "connected_record clientId pid now =
     [''clientId'' \<mapsto> Str clientId, ''status'' \<mapsto> Str ''online'',
      ''connectTime'' \<mapsto> Str now, ''processId'' \<mapsto> Num pid,
      ''healthData'' \<mapsto> EmptyObj, ''alarm'' \<mapsto> StrArr []]"

subsection \<open>Example inputs\<close>

text \<open>
  A boot-version frame of version \<open>1.0\<close>, a health frame without a block, a health
  frame with a block of 24 bytes, and an alarm frame with alarm byte 3, all of the
  device \<open>8e:83:c0:22:f6:04\<close>; and a formatter of dates.
\<close>

definition boot_example :: buffer where
  "boot_example = [0xAA, 0x44, 0x8E, 0x83, 0xC0, 0x22, 0xF6, 0x04, 0x31, 0x2E, 0x30, 0x0D]"

definition health_example :: buffer where
  "health_example = [0xAA, 0x55, 0x8E, 0x83, 0xC0, 0x22, 0xF6, 0x04, 0x5A, 0x01, 0x00, 0x00, 0x0D]"

definition health_block_example :: buffer where
  "health_block_example =
     [0xAA, 0x55, 0x8E, 0x83, 0xC0, 0x22, 0xF6, 0x04, 0x5A, 0x01, 0x00, 0x18,
      0xAA, 0x66, 0x10, 0x20, 0x30, 0x40, 0x00, 0x00, 0x00, 0x07, 0x48, 0x62,
      0x01, 0x00, 0x00, 0x01, 0x6D, 0x00, 0x00, 0x01, 0x6E, 0x11, 0x22, 0x33,
      0x0D]"

definition alarm_example :: buffer where
  "alarm_example = [0xAA, 0x77, 0x8E, 0x83, 0xC0, 0x22, 0xF6, 0x04, 0x00, 0x01, 0x03, 0x00, 0x0D]"

definition example_fmt :: "nat \<Rightarrow> string" where
  "example_fmt ms = ''2026/1/1 00:00:00''"

text \<open>
  Log entries numbered by their content; and a registry where the device has connected
  and a heart rate of 72 and a blood oxygen of 98 have been stored for it, with the
  record it then holds.
\<close>

definition example_entry :: "nat \<Rightarrow> string \<times> string \<times> string" where
  "example_entry i = (digits_of 10 i, ''info'', ''2026/1/1 00:00:00'')"

definition example_registry :: DeviceManager where
  "example_registry =
     snd (updateDeviceData ''8e:83:c0:22:f6:04''
            [''heartRate'' \<mapsto> Num 72, ''bloodOxygen'' \<mapsto> Num 98]
            ''2026/1/1 00:00:02''
            (onConnect ''8e:83:c0:22:f6:04'' 4242 ''2026/1/1 00:00:01'' ''2026/1/1 00:00:01''
               new_DeviceManager))"

definition example_record :: obj where
  "example_record =
     (connected_record ''8e:83:c0:22:f6:04'' 4242 ''2026/1/1 00:00:01'')
       (''heartRate'' \<mapsto> Num 72, ''bloodOxygen'' \<mapsto> Num 98)"

section \<open>Properties\<close>

subsection \<open>The radix of \<open>_parseMAC\<close>\<close>

text \<open>
  The string \<open>'hex'\<close> is not a number, so the radix it is coerced to is 0, and
  \<open>toString\<close> throws for every byte: \<open>_parseMAC\<close> returns (the empty string) for an
  empty slice only.
\<close>

lemma ToIntegerOrInfinity_hex: "ToIntegerOrInfinity ''hex'' = 0"
  by (simp add: ToIntegerOrInfinity_def StringToNumber_def is_digit_def)

lemma Number_toString_hex: "Number_toString x ''hex'' = Inl RangeError"
  by (simp add: Number_toString_def ToIntegerOrInfinity_hex)

lemma Number_toString_16: "Number_toString 142 ''16'' = Inr ''8e''"
  by (simp add: Number_toString_def ToIntegerOrInfinity_def StringToNumber_def is_digit_def
      digits_of.simps digit_char_def)

lemma parseMAC_empty: "parseMAC [] = Inr []"
  by (simp add: parseMAC_def)

lemma parseMAC_nonempty: "buf \<noteq> [] \<Longrightarrow> parseMAC buf = Inl RangeError"
  by (cases buf) (simp_all add: parseMAC_def Number_toString_hex)

lemma parseMAC_slice: "2 < length buf \<Longrightarrow> parseMAC (slice buf 2 8) = Inl RangeError"
  by (rule parseMAC_nonempty) (auto simp: slice_def)

subsection \<open>Hex strings\<close>

lemma hex_val_digit_char: "n < 16 \<Longrightarrow> hex_val (digit_char n) = Some n"
proof -
  assume "n < 16"
  then have "n \<in> set [0..<16]" by simp
  then show ?thesis
    by (simp add: upt_rec digit_char_def hex_val_def) (elim disjE; simp)
qed

lemma byte_digits:
  fixes b :: byte
  shows "unat b div 16 < 16" and "word_of_nat (16 * (unat b div 16) + unat b mod 16) = b"
proof -
  have "unat b < 256" using unsigned_less [of b] by simp
  then show "unat b div 16 < 16" by simp
  show "word_of_nat (16 * (unat b div 16) + unat b mod 16) = b" by simp
qed

lemma fromHex_toHex: "fromHex (toHex buf) = buf"
  by (induction buf) (simp_all add: toHex_def hex_val_digit_char byte_digits)

subsection \<open>What the parsers return\<close>

lemma parseHeader_eq:
  "parseHeader buf = Inr (if length buf < 2 then None else Some (unat (buf ! 0) * 256 + unat (buf ! 1)))"
  by (simp add: parseHeader_def readUInt16BE_def)

lemma slice_length: "length (slice buf a b) = min (b - a) (length buf - a)"
  by (simp add: slice_def)

lemma parseBootVersionFrame_eq:
  "parseBootVersionFrame buf =
     (if length buf = 12 \<and> buf ! 11 = PACKET_TAIL then Inl RangeError else Inr None)"
  by (simp add: parseBootVersionFrame_def parseMAC_slice)

lemma parseHealthDataFrame_eq:
  "parseHealthDataFrame fmt buf =
     (if 13 \<le> length buf \<and> buf ! (length buf - 1) = PACKET_TAIL then Inl RangeError else Inr None)"
  by (auto simp add: parseHealthDataFrame_def parseMAC_slice)

lemma parseAlarmDataFrame_eq:
  "parseAlarmDataFrame buf =
     (if 13 \<le> length buf \<and> buf ! (length buf - 1) = PACKET_TAIL then Inl RangeError else Inr None)"
  by (auto simp add: parseAlarmDataFrame_def parseMAC_slice)

lemma onPublish_eq:
  "onPublish fmt clientId payload now logTime dm =
     (case parseHeader payload of
        Inl e \<Rightarrow> (Inl e, dm)
      | Inr frameType \<Rightarrow>
          if frameType = Some BOOT_VERSION
          then (if length payload = 12 \<and> payload ! 11 = PACKET_TAIL then (Inl RangeError, dm)
                else (Inr ParsedNull, dm))
          else if frameType = Some HEALTH_DATA
          then (if 13 \<le> length payload \<and> payload ! (length payload - 1) = PACKET_TAIL
                then (Inl RangeError, dm)
                else (Inr ParsedNull, snd (updateDeviceData clientId (healthUpdate None) logTime dm)))
          else if frameType = Some ALARM_DATA
          then (if 13 \<le> length payload \<and> payload ! (length payload - 1) = PACKET_TAIL
                then (Inl RangeError, dm)
                else (Inr ParsedNull, snd (updateDeviceData clientId (alarmUpdate None now) logTime dm)))
          else (Inr (ParsedError UNKNOWN_FRAME_TYPE (toHex payload)), dm))"
  apply (simp add: onPublish_def fromHex_toHex parseBootVersionFrame_eq parseHealthDataFrame_eq parseAlarmDataFrame_eq Let_def parseHeader_eq)
  apply (auto simp: updateDeviceData_def healthUpdate_def alarmUpdate_def getProp_def alarmField_def healthField_def split: option.splits)
  done

subsection \<open>Decoding\<close>

text \<open>
  C2 (the code does not do this). A buffer of 12 bytes with discriminant 0xAA44 and tail
  0x0D should parse into a boot-version record with a colon-separated mac of 17
  characters and a version of 3 characters. At the frame \<open>boot_example\<close>, which is
  such a buffer, \<open>parseBootVersionFrame\<close> throws a RangeError in \<open>_parseMAC\<close>
  instead of returning a record, and the publish handler ends with that exception.
  By \<open>parseBootVersionFrame_eq\<close> it is so at every such buffer.
\<close>

theorem C2_boot_version_frame_raises:
  "length boot_example = 12 \<and> boot_example ! 11 = 0x0D \<and>
   parseHeader boot_example = Inr (Some 0xAA44) \<and>
   parseBootVersionFrame boot_example = Inl RangeError \<and>
   onPublish fmt clientId boot_example now logTime dm = (Inl RangeError, dm)"
  by (simp add: boot_example_def parseBootVersionFrame_eq onPublish_eq parseHeader_eq
      PACKET_TAIL_def BOOT_VERSION_def)

text \<open>The same on the example registry: the handler ends with the exception.\<close>

theorem C2_witness:
  "parseBootVersionFrame boot_example = Inl RangeError \<and>
   onPublish example_fmt ''8e:83:c0:22:f6:04'' boot_example ''2026/1/1 00:00:05''
       ''2026/1/1 00:00:05'' example_registry
     = (Inl RangeError, example_registry)"
  using C2_boot_version_frame_raises [of example_fmt "''8e:83:c0:22:f6:04''"
      "''2026/1/1 00:00:05''" "''2026/1/1 00:00:05''" example_registry]
  by simp

text \<open>
  C4 (the code does not do this). A health frame (discriminant 0xAA55, 13 bytes or
  more, tail 0x0D) should parse, with an embedded block when the slice between offset
  12 and the tail has 24 bytes or more and without one when it is shorter. At
  \<open>health_example\<close> (no block) and at \<open>health_block_example\<close> (a block of 24
  bytes) \<open>parseHealthDataFrame\<close> throws a RangeError in \<open>_parseMAC\<close>, before any
  field of the block is read. By \<open>parseHealthDataFrame_eq\<close> it is so at every such
  frame.
\<close>

theorem C4_health_frame_raises:
  "parseHeader health_example = Inr (Some 0xAA55) \<and>
   length health_example = 13 \<and> last health_example = 0x0D \<and>
   parseHealthDataFrame fmt health_example = Inl RangeError \<and>
   parseHeader health_block_example = Inr (Some 0xAA55) \<and>
   length (slice health_block_example 12 (length health_block_example - 1)) = 24 \<and>
   last health_block_example = 0x0D \<and>
   parseHealthDataFrame fmt health_block_example = Inl RangeError \<and>
   onPublish fmt clientId health_example now logTime dm = (Inl RangeError, dm) \<and>
   onPublish fmt clientId health_block_example now logTime dm = (Inl RangeError, dm)"
  by (simp add: health_example_def health_block_example_def parseHealthDataFrame_eq
      onPublish_eq parseHeader_eq PACKET_TAIL_def BOOT_VERSION_def HEALTH_DATA_def slice_def)

text \<open>The same on the example registry: the stored record is not touched.\<close>

theorem C4_witness:
  "parseHealthDataFrame example_fmt health_example = Inl RangeError \<and>
   parseHealthDataFrame example_fmt health_block_example = Inl RangeError \<and>
   onPublish example_fmt ''8e:83:c0:22:f6:04'' health_block_example ''2026/1/1 00:00:05''
       ''2026/1/1 00:00:05'' example_registry
     = (Inl RangeError, example_registry)"
  using C4_health_frame_raises [of example_fmt "''8e:83:c0:22:f6:04''"
      "''2026/1/1 00:00:05''" "''2026/1/1 00:00:05''" example_registry]
  by simp

text \<open>
  C8 (the code does not do this). A valid alarm frame with alarm byte 0x03 should decode
  with the alarm names low battery, SOS in this order, and one with alarm byte 0x00
  with the single name unknown. \<open>_parseAlarmType\<close> returns these lists for 3 and 0,
  but \<open>parseAlarmDataFrame\<close> throws a RangeError in \<open>_parseMAC\<close> before it reads
  the alarm byte: at \<open>alarm_example\<close> and at the same frame with alarm byte 0.
\<close>

theorem C8_alarm_frame_raises:
  "parseHeader alarm_example = Inr (Some 0xAA77) \<and>
   length alarm_example = 13 \<and> last alarm_example = 0x0D \<and> alarm_example ! 10 = 0x03 \<and>
   parseAlarmDataFrame alarm_example = Inl RangeError \<and>
   parseAlarmDataFrame (alarm_example[10 := 0x00]) = Inl RangeError \<and>
   onPublish fmt clientId alarm_example now logTime dm = (Inl RangeError, dm) \<and>
   parseAlarmType 0x03 = [LOW_BATTERY_ALARM, SOS_ALARM] \<and>
   parseAlarmType 0x00 = [UNKNOWN_ALARM]"
  by (simp add: alarm_example_def parseAlarmDataFrame_eq onPublish_eq parseHeader_eq
      PACKET_TAIL_def BOOT_VERSION_def HEALTH_DATA_def ALARM_DATA_def parseAlarmType_def)

text \<open>The same on the example registry: no alarm is stored and none is logged.\<close>

theorem C8_witness:
  "parseAlarmDataFrame alarm_example = Inl RangeError \<and>
   onPublish example_fmt ''8e:83:c0:22:f6:04'' alarm_example ''2026/1/1 00:00:05''
       ''2026/1/1 00:00:05'' example_registry
     = (Inl RangeError, example_registry)"
  using C8_alarm_frame_raises [of example_fmt "''8e:83:c0:22:f6:04''"
      "''2026/1/1 00:00:05''" "''2026/1/1 00:00:05''" example_registry]
  by simp

text \<open>
  C1, as stated, fails: the buffer AA 44 is a structural failure (a boot-version
  discriminant, too short), and the publish handler's result for it is null, not an
  object with a reason and the raw hex.
\<close>

theorem C1_counterexample:
  "\<not> structurally_valid [0xAA, 0x44] \<and>
   onPublish example_fmt ''8e:83:c0:22:f6:04'' [0xAA, 0x44] ''t'' ''t'' new_DeviceManager
     = (Inr ParsedNull, new_DeviceManager)"
  by (simp add: structurally_valid_def onPublish_eq parseHeader_eq BOOT_VERSION_def
      HEALTH_DATA_def ALARM_DATA_def)

text \<open>
  C1, amended. For every buffer that is a structural failure the publish handler's
  decode throws nothing: the result is the object \<open>{error, rawData}\<close>, with the
  unknown-frame-type reason and the raw hex, when the buffer is shorter than 2 bytes or
  its discriminant is unknown, and null when the discriminant is one of the three and
  the length or the tail byte is wrong.
\<close>

theorem C1_structural_failure_no_raise:
  assumes "\<not> structurally_valid buf"
  shows "fst (onPublish fmt clientId buf now logTime dm) =
           Inr (if known_discriminant buf then ParsedNull
                else ParsedError UNKNOWN_FRAME_TYPE (toHex buf))"
proof -
  have tail: "buf ! (length buf - 1) = last buf" if "13 \<le> length buf"
  proof -
    from that have "buf \<noteq> []" by (cases buf) simp_all
    then show ?thesis by (simp add: last_conv_nth)
  qed
  show ?thesis
    using assms tail
    by (auto simp: structurally_valid_def known_discriminant_def onPublish_eq parseHeader_eq
        BOOT_VERSION_def HEALTH_DATA_def ALARM_DATA_def)
qed

text \<open>The buffer AA 44 gives null; the buffer 01 02 03 gives the error object.\<close>

theorem C1_witness:
  "\<not> structurally_valid [0xAA, 0x44] \<and>
   fst (onPublish example_fmt ''8e:83:c0:22:f6:04'' [0xAA, 0x44] ''t'' ''t'' new_DeviceManager)
     = Inr ParsedNull \<and>
   \<not> structurally_valid [0x01, 0x02, 0x03] \<and>
   fst (onPublish example_fmt ''8e:83:c0:22:f6:04'' [0x01, 0x02, 0x03] ''t'' ''t'' new_DeviceManager)
     = Inr (ParsedError UNKNOWN_FRAME_TYPE ''010203'')"
proof -
  have a: "\<not> structurally_valid [0xAA, 0x44]"
    by (simp add: structurally_valid_def)
  have b: "\<not> structurally_valid [0x01, 0x02, 0x03]"
    by (simp add: structurally_valid_def parseHeader_eq BOOT_VERSION_def HEALTH_DATA_def
        ALARM_DATA_def)
  show ?thesis
    using a b
      C1_structural_failure_no_raise [OF a, of example_fmt "''8e:83:c0:22:f6:04''" "''t''" "''t''"
        new_DeviceManager]
      C1_structural_failure_no_raise [OF b, of example_fmt "''8e:83:c0:22:f6:04''" "''t''" "''t''"
        new_DeviceManager]
    by (simp add: known_discriminant_def parseHeader_eq BOOT_VERSION_def HEALTH_DATA_def
        ALARM_DATA_def toHex_def digit_char_def)
qed

subsection \<open>The log\<close>

lemma addLog_devices: "devices (addLog content type now dm) = devices dm"
  by (simp add: addLog_def Let_def)

lemma addLog_logs:
  "logs (addLog content type now dm) =
     (if length (logs dm) < 10000 then logs dm else tl (logs dm))
       @ [\<lparr>log_time = now, log_type = type, log_content = content\<rparr>]"
  by (cases "logs dm") (simp_all add: addLog_def Let_def)

lemma addLog_bound:
  "length (logs dm) \<le> 10000 \<Longrightarrow> length (logs (addLog content type now dm)) \<le> 10000"
  by (simp add: addLog_logs)

lemma updateDeviceData_logs:
  "logs (snd (updateDeviceData mac data now dm)) = logs dm \<or>
   (\<exists>content. logs (snd (updateDeviceData mac data now dm)) = logs (addLog content ''alarm'' now dm))"
  by (auto simp: updateDeviceData_def Let_def addLog_logs split: option.splits sum.splits)

lemma updateDeviceData_bound:
  "length (logs dm) \<le> 10000 \<Longrightarrow> length (logs (snd (updateDeviceData mac data now dm))) \<le> 10000"
  using updateDeviceData_logs [of mac data now dm] addLog_bound [of dm] by auto

lemma addDevice_bound:
  "length (logs dm) \<le> 10000 \<Longrightarrow> length (logs (addDevice mac info now dm)) \<le> 10000"
  by (simp add: addDevice_def addLog_logs)

lemma clear_bound:
  "length (logs dm) \<le> 10000 \<Longrightarrow> length (logs (clear now dm)) \<le> 10000"
  by (simp add: clear_def addLog_logs)

lemma exportLogs_bound:
  "length (logs dm) \<le> 10000 \<Longrightarrow> length (logs (exportLogs filePath now written dm)) \<le> 10000"
  by (simp add: exportLogs_def addLog_logs)

lemma onPublish_bound:
  "length (logs dm) \<le> 10000 \<Longrightarrow>
   length (logs (snd (onPublish fmt clientId payload now logTime dm))) \<le> 10000"
  using updateDeviceData_bound [of dm clientId "healthUpdate None" logTime]
    updateDeviceData_bound [of dm clientId "alarmUpdate None now" logTime]
  by (simp add: onPublish_eq parseHeader_eq)

lemma apply_operation_bound:
  "length (logs dm) \<le> 10000 \<Longrightarrow> length (logs (apply_operation operation dm)) \<le> 10000"
  by (cases operation)
    (simp_all add: addDevice_bound updateDeviceData_bound clear_bound exportLogs_bound
      onPublish_bound onConnect_def onDisconnect_def)

lemma run_bound:
  "length (logs dm) \<le> 10000 \<Longrightarrow> length (logs (run ops dm)) \<le> 10000"
  unfolding run_def by (induction ops arbitrary: dm) (simp_all add: apply_operation_bound)

lemma addLogs_snoc:
  "addLogs (es @ [(content, type, now)]) dm = addLog content type now (addLogs es dm)"
  by (simp add: addLogs_def)

lemma addLogs_logs:
  "length (logs dm) \<le> 10000 \<Longrightarrow>
   logs (addLogs es dm) = drop (length (logs dm) + length es - 10000) (logs dm @ map entry_of es)"
proof (induction es rule: rev_induct)
  case Nil
  then show ?case by (simp add: addLogs_def)
next
  case (snoc e es)
  obtain content type now where e: "e = (content, type, now)" by (cases e)
  let ?all = "logs dm @ map entry_of es"
  let ?k = "length (logs dm) + length es - 10000"
  have ih: "logs (addLogs es dm) = drop ?k ?all" using snoc by simp
  show ?case
  proof (cases "length ?all < 10000")
    case True
    then show ?thesis by (simp add: e addLogs_snoc addLog_logs ih entry_of_def)
  next
    case False
    define L where "L = logs dm @ map entry_of es"
    define k where "k = length (logs dm) + length es - 10000"
    have lenL: "length L = length (logs dm) + length es" by (simp add: L_def)
    have k: "k + 10000 = length L" using False by (simp add: k_def lenL)
    have ih': "logs (addLogs es dm) = drop k L" using ih by (simp add: L_def k_def)
    have "logs (addLogs (es @ [e]) dm) = tl (drop k L) @ [entry_of e]"
      using k by (simp add: e addLogs_snoc addLog_logs ih' entry_of_def)
    also have "\<dots> = drop (Suc k) (L @ [entry_of e])"
      using k by (simp add: drop_Suc tl_drop)
    finally have "logs (addLogs (es @ [e]) dm) = drop (Suc k) (L @ [entry_of e])" .
    moreover have "Suc k = length (logs dm) + length (es @ [e]) - 10000"
      using k lenL by simp
    moreover have "L @ [entry_of e] = logs dm @ map entry_of (es @ [e])"
      by (simp add: L_def)
    ultimately show ?thesis by simp
  qed
qed

text \<open>
  C5. Whatever methods are called on a new DeviceManager and whatever events the broker
  delivers, the log holds at most 10000 entries afterwards. And when 10001 entries are
  appended to the empty log, 10000 are left: the entries in their order without the
  first one, so that the second one appended is now the first.
\<close>

theorem C5_log_bounded_fifo:
  "length (logs (run ops new_DeviceManager)) \<le> 10000 \<and>
   (length es = 10001 \<longrightarrow>
      length (logs (addLogs es new_DeviceManager)) = 10000 \<and>
      map entry_of es = entry_of (es ! 0) # logs (addLogs es new_DeviceManager) \<and>
      hd (logs (addLogs es new_DeviceManager)) = entry_of (es ! 1))"
proof -
  have bound: "length (logs (run ops new_DeviceManager)) \<le> 10000"
    by (rule run_bound) (simp add: new_DeviceManager_def)
  have fifo: "logs (addLogs es new_DeviceManager) = tl (map entry_of es)" if "length es = 10001"
    using that addLogs_logs [of new_DeviceManager es]
    by (simp add: new_DeviceManager_def drop_Suc)
  have shape: "length (tl (map entry_of es)) = 10000 \<and>
      map entry_of es = entry_of (es ! 0) # tl (map entry_of es) \<and>
      hd (tl (map entry_of es)) = entry_of (es ! 1)" if "length es = 10001"
  proof -
    from that obtain a b rest where "es = a # b # rest"
      by (cases es; cases "tl es") auto
    with that show ?thesis by simp
  qed
  from bound fifo shape show ?thesis by simp
qed

text \<open>The entries numbered 0 to 10000: entry 1 is the first that is left.\<close>

theorem C5_witness:
  "length (map example_entry [0..<10001]) = 10001 \<and>
   length (logs (addLogs (map example_entry [0..<10001]) new_DeviceManager)) = 10000 \<and>
   hd (logs (addLogs (map example_entry [0..<10001]) new_DeviceManager))
     = \<lparr>log_time = ''2026/1/1 00:00:00'', log_type = ''info'', log_content = ''1''\<rparr>"
proof -
  have len: "length (map example_entry [0..<10001]) = 10001" by simp
  have second: "map example_entry [0..<10001] ! 1 = example_entry 1" by simp
  have one: "digits_of 10 (Suc 0) = ''1''" by (simp add: digits_of.simps digit_char_def)
  from C5_log_bounded_fifo [of "[]" "map example_entry [0..<10001]"] len
  have "length (logs (addLogs (map example_entry [0..<10001]) new_DeviceManager)) = 10000"
    and "hd (logs (addLogs (map example_entry [0..<10001]) new_DeviceManager))
           = entry_of (map example_entry [0..<10001] ! 1)"
    by blast+
  then show ?thesis
    using len by (simp only: second) (simp add: example_entry_def entry_of_def one)
qed

subsection \<open>Updates of the registry\<close>

text \<open>
  C6. For an id that the registry does not hold, \<open>updateDeviceData\<close> throws nothing
  and returns the DeviceManager as it was: the same records and the same log.
\<close>

theorem C6_update_absent_noop:
  "devices dm mac = None \<Longrightarrow> updateDeviceData mac data now dm = (Inr (), dm)"
  by (simp add: updateDeviceData_def)

text \<open>An alarm update for a device that never connected.\<close>

theorem C6_witness:
  "devices new_DeviceManager ''8e:83:c0:22:f6:04'' = None \<and>
   updateDeviceData ''8e:83:c0:22:f6:04'' [''alarm'' \<mapsto> StrArr [SOS_ALARM]] ''t'' new_DeviceManager
     = (Inr (), new_DeviceManager)"
proof -
  have absent: "devices new_DeviceManager ''8e:83:c0:22:f6:04'' = None"
    by (simp add: new_DeviceManager_def)
  from absent C6_update_absent_noop [OF absent] show ?thesis by simp
qed

subsection \<open>Connect and disconnect\<close>

lemma onConnect_devices:
  "devices (onConnect clientId pid now logTime dm)
     = (devices dm)(clientId \<mapsto> connected_record clientId pid now)"
  by (simp add: onConnect_def addDevice_def addLog_devices connected_record_def)

lemma example_registry_device:
  "devices example_registry ''8e:83:c0:22:f6:04'' = Some example_record"
  by (simp add: example_registry_def example_record_def updateDeviceData_def onConnect_devices
      getProp_def Let_def)

lemma example_registry_logs:
  "logs example_registry =
     [\<lparr>log_time = ''2026/1/1 00:00:01'', log_type = ''info'',
       log_content = DEVICE_ONLINE @ ''8e:83:c0:22:f6:04''\<rparr>]"
  by (simp add: example_registry_def updateDeviceData_def onConnect_devices getProp_def Let_def
      onConnect_def addDevice_def addLog_logs addLog_devices new_DeviceManager_def)

lemma updateDeviceData_present:
  assumes "devices dm mac = Some device"
  shows "devices (snd (updateDeviceData mac data now dm)) = (devices dm)(mac \<mapsto> device ++ data)"
  using assms
  by (simp add: updateDeviceData_def Let_def addLog_devices split: sum.splits)

lemma updateDeviceData_no_alarm:
  assumes "devices dm mac = Some device" and "\<not> truthy (getProp data ''alarm'')"
  shows "updateDeviceData mac data now dm
           = (Inr (), dm\<lparr>devices := (devices dm)(mac \<mapsto> device ++ data)\<rparr>)"
  using assms by (simp add: updateDeviceData_def Let_def)

text \<open>
  C9. A connect event stores the device's record with status online. A disconnect
  event for a registered device throws nothing and changes its record at the keys
  \<open>status\<close> (now offline) and \<open>disconnectTime\<close> (now set) only, and nothing else of
  the DeviceManager: every other field of the record, among them \<open>healthData\<close> and
  the stored vitals, is as before. So a connect followed by a disconnect leaves the
  record of the connect with these two keys changed.
\<close>

theorem C9_connect_then_disconnect:
  "devices (onConnect clientId pid t1 l1 dm) clientId = Some (connected_record clientId pid t1) \<and>
   connected_record clientId pid t1 ''status'' = Some (Str ''online'') \<and>
   (devices dm1 clientId = Some device \<longrightarrow>
      onDisconnect clientId t2 l2 dm1
        = (Inr (), dm1\<lparr>devices := (devices dm1)
             (clientId \<mapsto> device(''status'' \<mapsto> Str ''offline'', ''disconnectTime'' \<mapsto> Str t2))\<rparr>)) \<and>
   snd (onDisconnect clientId t2 l2 (onConnect clientId pid t1 l1 dm))
     = (onConnect clientId pid t1 l1 dm)\<lparr>devices := (devices dm)
          (clientId \<mapsto> (connected_record clientId pid t1)
             (''status'' \<mapsto> Str ''offline'', ''disconnectTime'' \<mapsto> Str t2))\<rparr>"
proof -
  have step: "onDisconnect clientId t2 l2 d
        = (Inr (), d\<lparr>devices := (devices d)
             (clientId \<mapsto> r(''status'' \<mapsto> Str ''offline'', ''disconnectTime'' \<mapsto> Str t2))\<rparr>)"
    if "devices d clientId = Some r" for d r
    using that by (simp add: onDisconnect_def updateDeviceData_no_alarm getProp_def)
  have conn: "devices (onConnect clientId pid t1 l1 dm) clientId
                = Some (connected_record clientId pid t1)"
    by (simp add: onConnect_devices)
  have online: "connected_record clientId pid t1 ''status'' = Some (Str ''online'')"
    by (simp add: connected_record_def)
  show ?thesis
    using conn online step [OF conn] step [of dm1 device]
    by (simp add: onConnect_devices)
qed

text \<open>
  The example registry holds a heart rate of 72 for the device; the record after the
  disconnect is the same record with the two keys changed.
\<close>

theorem C9_witness:
  "devices example_registry ''8e:83:c0:22:f6:04'' = Some example_record \<and>
   example_record ''heartRate'' = Some (Num 72) \<and>
   example_record ''status'' = Some (Str ''online'') \<and>
   onDisconnect ''8e:83:c0:22:f6:04'' ''2026/1/1 00:00:09'' ''2026/1/1 00:00:09'' example_registry
     = (Inr (), example_registry\<lparr>devices := (devices example_registry)
          (''8e:83:c0:22:f6:04'' \<mapsto> example_record
             (''status'' \<mapsto> Str ''offline'', ''disconnectTime'' \<mapsto> Str ''2026/1/1 00:00:09''))\<rparr>)"
  using example_registry_device
    C9_connect_then_disconnect [of "''8e:83:c0:22:f6:04''" 0 "''''" "''''" new_DeviceManager
      example_registry example_record "''2026/1/1 00:00:09''" "''2026/1/1 00:00:09''"]
  by (simp add: example_record_def connected_record_def)

subsection \<open>Updates and the log\<close>

text \<open>
  C10, as stated, fails: an update whose alarm field is the empty array appends a log
  entry of alarm severity, since an array is truthy also when it is empty.
\<close>

theorem C10_counterexample:
  "devices example_registry ''8e:83:c0:22:f6:04'' = Some example_record \<and>
   getProp [''alarm'' \<mapsto> StrArr []] ''alarm'' = StrArr [] \<and>
   logs (snd (updateDeviceData ''8e:83:c0:22:f6:04'' [''alarm'' \<mapsto> StrArr []]
                ''2026/1/1 00:00:03'' example_registry))
     = logs example_registry
         @ [\<lparr>log_time = ''2026/1/1 00:00:03'', log_type = ''alarm'',
             log_content = DEVICE_ALARM @ ''8e:83:c0:22:f6:04'' @ DEVICE_ALARM_SEP\<rparr>]"
  by (simp add: example_registry_device example_registry_logs updateDeviceData_def getProp_def
      Let_def addLog_logs)

text \<open>
  C10, amended. For an id the registry holds, \<open>updateDeviceData\<close> stores the merged
  record and leaves the set of ids as it was. When the alarm field of the update is an
  array, empty or not, it throws nothing and appends exactly one entry of alarm
  severity, with the joined names, to the log (dropping the oldest entry of a log of
  10000). When the alarm field is anything but an array (absent and undefined among
  them) the log is as before.
\<close>

theorem C10_update_logs_alarm_array:
  assumes "devices dm mac = Some device"
  shows "devices (snd (updateDeviceData mac data now dm)) = (devices dm)(mac \<mapsto> device ++ data) \<and>
         dom (devices (snd (updateDeviceData mac data now dm))) = dom (devices dm) \<and>
         (getProp data ''alarm'' = StrArr names \<longrightarrow>
            fst (updateDeviceData mac data now dm) = Inr () \<and>
            logs (snd (updateDeviceData mac data now dm))
              = (if length (logs dm) < 10000 then logs dm else tl (logs dm))
                  @ [\<lparr>log_time = now, log_type = ''alarm'',
                      log_content = DEVICE_ALARM @ mac @ DEVICE_ALARM_SEP @ join '','' names\<rparr>]) \<and>
         ((\<forall>xs. getProp data ''alarm'' \<noteq> StrArr xs) \<longrightarrow>
            logs (snd (updateDeviceData mac data now dm)) = logs dm)"
proof -
  have dev: "devices (snd (updateDeviceData mac data now dm)) = (devices dm)(mac \<mapsto> device ++ data)"
    by (rule updateDeviceData_present [OF assms])
  have ids: "dom (devices (snd (updateDeviceData mac data now dm))) = dom (devices dm)"
    using assms by (auto simp: dev)
  have arr: "fst (updateDeviceData mac data now dm) = Inr () \<and>
            logs (snd (updateDeviceData mac data now dm))
              = (if length (logs dm) < 10000 then logs dm else tl (logs dm))
                  @ [\<lparr>log_time = now, log_type = ''alarm'',
                      log_content = DEVICE_ALARM @ mac @ DEVICE_ALARM_SEP @ join '','' names\<rparr>]"
    if "getProp data ''alarm'' = StrArr names"
    using assms that by (simp add: updateDeviceData_def Let_def addLog_logs)
  have other: "logs (snd (updateDeviceData mac data now dm)) = logs dm"
    if "\<forall>xs. getProp data ''alarm'' \<noteq> StrArr xs"
    using assms that
    by (cases "getProp data ''alarm''") (simp_all add: updateDeviceData_def Let_def)
  from dev ids arr other show ?thesis by blast
qed

text \<open>An update with two alarm names, and one with no alarm field.\<close>

theorem C10_witness:
  "devices example_registry ''8e:83:c0:22:f6:04'' = Some example_record \<and>
   getProp [''alarm'' \<mapsto> StrArr [LOW_BATTERY_ALARM, SOS_ALARM]] ''alarm''
     = StrArr [LOW_BATTERY_ALARM, SOS_ALARM] \<and>
   logs (snd (updateDeviceData ''8e:83:c0:22:f6:04''
                [''alarm'' \<mapsto> StrArr [LOW_BATTERY_ALARM, SOS_ALARM]]
                ''2026/1/1 00:00:03'' example_registry))
     = logs example_registry
         @ [\<lparr>log_time = ''2026/1/1 00:00:03'', log_type = ''alarm'',
             log_content = DEVICE_ALARM @ ''8e:83:c0:22:f6:04'' @ DEVICE_ALARM_SEP
                @ LOW_BATTERY_ALARM @ '','' @ SOS_ALARM\<rparr>] \<and>
   (\<forall>xs. getProp [''status'' \<mapsto> Str ''offline''] ''alarm'' \<noteq> StrArr xs) \<and>
   logs (snd (updateDeviceData ''8e:83:c0:22:f6:04'' [''status'' \<mapsto> Str ''offline'']
                ''2026/1/1 00:00:03'' example_registry))
     = logs example_registry"
proof -
  have a: "getProp [''alarm'' \<mapsto> StrArr [LOW_BATTERY_ALARM, SOS_ALARM]] ''alarm''
     = StrArr [LOW_BATTERY_ALARM, SOS_ALARM]"
    by (simp add: getProp_def)
  have b: "\<forall>xs. getProp [''status'' \<mapsto> Str ''offline''] ''alarm'' \<noteq> StrArr xs"
    by (simp add: getProp_def)
  show ?thesis
    using a b example_registry_device
      C10_update_logs_alarm_array [OF example_registry_device,
        of "[''alarm'' \<mapsto> StrArr [LOW_BATTERY_ALARM, SOS_ALARM]]" "''2026/1/1 00:00:03''"
           "[LOW_BATTERY_ALARM, SOS_ALARM]"]
      C10_update_logs_alarm_array [OF example_registry_device,
        of "[''status'' \<mapsto> Str ''offline'']" "''2026/1/1 00:00:03''" "[]"]
    by (simp add: example_registry_logs)
qed

subsection \<open>Health frames and the stored vitals\<close>

text \<open>
  C3, as stated, fails: the payload AA 55 does not decode to a health frame (the parser
  returns null), yet the handler calls \<open>updateDeviceData\<close> with the five vitals keys,
  and the heart rate of 72 stored for the device is \<open>undefined\<close> afterwards.
\<close>

theorem C3_counterexample:
  "devices example_registry ''8e:83:c0:22:f6:04'' = Some example_record \<and>
   getProp example_record ''heartRate'' = Num 72 \<and>
   parseHealthDataFrame example_fmt [0xAA, 0x55] = Inr None \<and>
   fst (onPublish example_fmt ''8e:83:c0:22:f6:04'' [0xAA, 0x55] ''2026/1/1 00:00:05''
          ''2026/1/1 00:00:05'' example_registry) = Inr ParsedNull \<and>
   getProp (the (devices (snd (onPublish example_fmt ''8e:83:c0:22:f6:04'' [0xAA, 0x55]
                   ''2026/1/1 00:00:05'' ''2026/1/1 00:00:05'' example_registry))
              ''8e:83:c0:22:f6:04'')) ''heartRate'' = Undefined"
  by (simp add: example_registry_device onPublish_eq parseHeader_eq parseHealthDataFrame_eq
      BOOT_VERSION_def HEALTH_DATA_def updateDeviceData_present healthUpdate_def
      healthField_def getProp_def example_record_def)

lemma healthUpdate_dom: "dom (healthUpdate parsed) = vitals_keys"
  by (auto simp: healthUpdate_def vitals_keys_def)

lemma healthUpdate_no_block:
  "\<not> has_health_block parsed \<Longrightarrow> k \<in> vitals_keys \<Longrightarrow> healthUpdate parsed k = Some Undefined"
  by (auto simp: healthUpdate_def vitals_keys_def has_health_block_def healthField_def
      split: option.splits)

text \<open>
  C3, amended. On a publish event with discriminant 0xAA55 for a registered device,
  whenever the parser returns (a frame or null), the handler throws nothing and stores
  the record merged with the five vitals keys: every other field is as before, and
  when the result carries no embedded block each of the five keys holds
  \<open>undefined\<close> afterwards, whatever was stored.
\<close>

theorem C3_health_update_unconditional:
  assumes "parseHeader buf = Inr (Some HEALTH_DATA)"
    and "parseHealthDataFrame fmt buf = Inr parsed"
    and "devices dm clientId = Some device"
  shows "onPublish fmt clientId buf now logTime dm =
           (Inr (case parsed of None \<Rightarrow> ParsedNull | Some frame \<Rightarrow> ParsedHealth frame),
            dm\<lparr>devices := (devices dm)(clientId \<mapsto> device ++ healthUpdate parsed)\<rparr>) \<and>
         (\<forall>k. k \<notin> vitals_keys \<longrightarrow> (device ++ healthUpdate parsed) k = device k) \<and>
         (\<not> has_health_block parsed \<longrightarrow>
            (\<forall>k \<in> vitals_keys. (device ++ healthUpdate parsed) k = Some Undefined))"
proof -
  have no_alarm: "\<not> truthy (getProp (healthUpdate parsed) ''alarm'')"
    by (simp add: healthUpdate_def getProp_def)
  have handler: "onPublish fmt clientId buf now logTime dm =
           (Inr (case parsed of None \<Rightarrow> ParsedNull | Some frame \<Rightarrow> ParsedHealth frame),
            dm\<lparr>devices := (devices dm)(clientId \<mapsto> device ++ healthUpdate parsed)\<rparr>)"
    using assms
    by (simp add: onPublish_def fromHex_toHex Let_def BOOT_VERSION_def HEALTH_DATA_def
        updateDeviceData_no_alarm [OF assms(3) no_alarm])
  have kept: "(device ++ healthUpdate parsed) k = device k" if "k \<notin> vitals_keys" for k
  proof -
    from that healthUpdate_dom [of parsed] have "healthUpdate parsed k = None"
      by (auto simp: domIff)
    then show ?thesis by (simp add: map_add_def)
  qed
  have cleared: "(device ++ healthUpdate parsed) k = Some Undefined"
    if "\<not> has_health_block parsed" and "k \<in> vitals_keys" for k
    using healthUpdate_no_block [OF that] by (simp add: map_add_def)
  from handler kept cleared show ?thesis by blast
qed

text \<open>The payload AA 55 on the example registry: the vitals are cleared, the status kept.\<close>

theorem C3_witness:
  "parseHeader [0xAA, 0x55] = Inr (Some HEALTH_DATA) \<and>
   parseHealthDataFrame example_fmt [0xAA, 0x55] = Inr None \<and>
   devices example_registry ''8e:83:c0:22:f6:04'' = Some example_record \<and>
   \<not> has_health_block None \<and>
   onPublish example_fmt ''8e:83:c0:22:f6:04'' [0xAA, 0x55] ''2026/1/1 00:00:05''
       ''2026/1/1 00:00:05'' example_registry
     = (Inr ParsedNull,
        example_registry\<lparr>devices := (devices example_registry)
          (''8e:83:c0:22:f6:04'' \<mapsto> example_record ++ healthUpdate None)\<rparr>) \<and>
   (example_record ++ healthUpdate None) ''heartRate'' = Some Undefined \<and>
   (example_record ++ healthUpdate None) ''status'' = Some (Str ''online'')"
proof -
  have h: "parseHeader [0xAA, 0x55] = Inr (Some HEALTH_DATA)"
    by (simp add: parseHeader_eq HEALTH_DATA_def)
  have p: "parseHealthDataFrame example_fmt [0xAA, 0x55] = Inr None"
    by (simp add: parseHealthDataFrame_eq)
  have n: "\<not> has_health_block None" by (simp add: has_health_block_def)
  have v: "''heartRate'' \<in> vitals_keys" "''status'' \<notin> vitals_keys"
    by (simp_all add: vitals_keys_def)
  have s: "example_record ''status'' = Some (Str ''online'')"
    by (simp add: example_record_def connected_record_def)
  from C3_health_update_unconditional [OF h p example_registry_device,
      of "''2026/1/1 00:00:05''" "''2026/1/1 00:00:05''"] n v s
  show ?thesis using h p example_registry_device by simp
qed

subsection \<open>Acknowledgement frames\<close>

lemma fromHex_length: "is_hex_string s \<Longrightarrow> length (fromHex s) = length s div 2"
  by (induction s rule: fromHex.induct) (auto simp: is_hex_string_def)

lemma fromHex_nth:
  "is_hex_string s \<Longrightarrow> i < length s div 2 \<Longrightarrow> fromHex s ! i = hex_byte s i"
proof (induction s arbitrary: i rule: fromHex.induct)
  case (1 c d cs)
  then obtain h l where hl: "hex_val c = Some h" "hex_val d = Some l"
    by (auto simp: is_hex_string_def)
  show ?case
  proof (cases i)
    case 0
    then show ?thesis by (simp add: hl hex_byte_def)
  next
    case (Suc j)
    with 1 hl have "fromHex cs ! j = hex_byte cs j"
      by (simp add: is_hex_string_def)
    with Suc show ?thesis by (simp add: hl hex_byte_def)
  qed
qed simp_all

text \<open>
  C7. For a mac of 12 hex digits, the six mac bytes are the bytes its six pairs of
  digits denote; the boot-version acknowledgement is the 11 bytes AA 44, the mac bytes,
  00 00 0D; the health and the alarm acknowledgements are the 10 bytes of their header
  (AA 55, AA 77), the mac bytes, 01 and 0D; and any other frame type gives null.
\<close>

theorem C7_response_frames:
  assumes "length mac = 12" and "is_hex_string mac"
  shows "fromHex mac = map (hex_byte mac) [0..<6] \<and>
         generateResponseFrame mac BOOT_VERSION
           = Some ([0xAA, 0x44] @ fromHex mac @ [0x00, 0x00, 0x0D]) \<and>
         length (the (generateResponseFrame mac BOOT_VERSION)) = 11 \<and>
         generateResponseFrame mac HEALTH_DATA
           = Some ([0xAA, 0x55] @ fromHex mac @ [0x01, 0x0D]) \<and>
         length (the (generateResponseFrame mac HEALTH_DATA)) = 10 \<and>
         generateResponseFrame mac ALARM_DATA
           = Some ([0xAA, 0x77] @ fromHex mac @ [0x01, 0x0D]) \<and>
         length (the (generateResponseFrame mac ALARM_DATA)) = 10 \<and>
         (frameType \<noteq> BOOT_VERSION \<and> frameType \<noteq> HEALTH_DATA \<and> frameType \<noteq> ALARM_DATA
            \<longrightarrow> generateResponseFrame mac frameType = None)"
proof -
  have len: "length (fromHex mac) = 6"
    using assms by (simp add: fromHex_length)
  have bytes: "fromHex mac = map (hex_byte mac) [0..<6]"
  proof (rule nth_equalityI)
    show "length (fromHex mac) = length (map (hex_byte mac) [0..<6])" using len by simp
  next
    fix i assume "i < length (fromHex mac)"
    with len assms show "fromHex mac ! i = map (hex_byte mac) [0..<6] ! i"
      by (simp add: fromHex_nth)
  qed
  show ?thesis
    using len bytes
    by (simp add: generateResponseFrame_def Let_def BOOT_VERSION_def HEALTH_DATA_def
        ALARM_DATA_def NO_UPGRADE_def SUCCESS_def PACKET_TAIL_def)
qed

text \<open>The mac \<open>8e83c022f604\<close>, and the frame type 0xAA66 for the last part.\<close>

theorem C7_witness:
  "length ''8e83c022f604'' = 12 \<and> is_hex_string ''8e83c022f604'' \<and>
   generateResponseFrame ''8e83c022f604'' BOOT_VERSION
     = Some [0xAA, 0x44, 0x8E, 0x83, 0xC0, 0x22, 0xF6, 0x04, 0x00, 0x00, 0x0D] \<and>
   generateResponseFrame ''8e83c022f604'' HEALTH_DATA
     = Some [0xAA, 0x55, 0x8E, 0x83, 0xC0, 0x22, 0xF6, 0x04, 0x01, 0x0D] \<and>
   generateResponseFrame ''8e83c022f604'' ALARM_DATA
     = Some [0xAA, 0x77, 0x8E, 0x83, 0xC0, 0x22, 0xF6, 0x04, 0x01, 0x0D] \<and>
   generateResponseFrame ''8e83c022f604'' 0xAA66 = None"
proof -
  have l: "length ''8e83c022f604'' = 12" by simp
  have x: "is_hex_string ''8e83c022f604''" by (simp add: is_hex_string_def hex_val_def)
  have m: "map (hex_byte ''8e83c022f604'') [0..<6] = [0x8E, 0x83, 0xC0, 0x22, 0xF6, 0x04]"
    by (simp add: upt_rec hex_byte_def hex_val_def)
  from C7_response_frames [OF l x, of "0xAA66"] l x m
  show ?thesis by (simp add: BOOT_VERSION_def HEALTH_DATA_def ALARM_DATA_def)
qed

end
